theory Spec2Isabelle
  imports Main
begin

section \<open>The mock storage of insights-results-aggregator-mock\<close>

text \<open>
  A shallow embedding of \<^verbatim>\<open>storage/storage.go\<close>. Cluster names and reports are Go
  strings (\<^verbatim>\<open>types.ClusterName\<close>, \<^verbatim>\<open>types.ClusterReport\<close>); an organization ID is an
  unsigned number that the code only compares with constants. A Go result pair
  \<^verbatim>\<open>(value, error)\<close> is a pair whose second component is \<open>None\<close> for \<^verbatim>\<open>nil\<close>. The
  package-level map \<^verbatim>\<open>reports\<close> is passed to every function that reads it and returned
  by every function that writes it. The wall clock and the file system are parameters.
  A run-time panic is the left summand of the result. Log output is not modelled.
\<close>

type_synonym OrgID = nat
type_synonym ClusterName = string
type_synonym ClusterReport = string

datatype error =
  errorString string
  | PathError string string

datatype panic = IntegerDivideByZero | IndexOutOfRange

type_synonym store = "string \<rightharpoonup> string"

text \<open>
  The operating system as \<^verbatim>\<open>readReport\<close> sees it: \<^verbatim>\<open>filepath.Abs\<close> and \<^verbatim>\<open>os.ReadFile\<close>,
  each giving an error or a value.
\<close>

record os =
  filepath_Abs :: "string \<Rightarrow> error + string"
  os_ReadFile :: "string \<Rightarrow> error + string"

text \<open>
  A \<^verbatim>\<open>time.Time\<close> is represented by its wall-clock seconds; \<^verbatim>\<open>Minute\<close> is the minute
  offset within the hour, in the range 0 to 59.
\<close>

datatype time = Time (wall_seconds: nat)

definition Minute :: "time \<Rightarrow> nat" where
  "Minute t = (wall_seconds t mod 3600) div 60"

definition clusterNotFoundMessage :: string where
  "clusterNotFoundMessage = ''Cluster not found''"

definition changingClustersPeriodInMinutes :: nat where
  "changingClustersPeriodInMinutes = 15"

definition noPermissionsForOrg :: string where
  "noPermissionsForOrg = ''You have no permissions to get or change info about this organization''"

definition readReport :: "os \<Rightarrow> string \<Rightarrow> string \<Rightarrow> string \<times> error option" where
  "readReport sys path clusterName =
     (case filepath_Abs sys (path @ ''/report_'' @ clusterName @ ''.json'') of
        Inl err \<Rightarrow> ('''', Some err)
      | Inr absPath \<Rightarrow>
          (case os_ReadFile sys absPath of
             Inl err \<Rightarrow> ('''', Some err)
           | Inr report \<Rightarrow> (report, None)))"

text \<open>The list of clusters whose reports \<^verbatim>\<open>initStorage\<close> loads, in the source's order.\<close>

definition clusters :: "string list" where
  "clusters =
    [''34c3ecc5-624a-49a5-bab8-4fdc5e51a266'',
     ''34c3ecc5-624a-49a5-bab8-4fdc5e51a267'',
     ''34c3ecc5-624a-49a5-bab8-4fdc5e51a268'',
     ''34c3ecc5-624a-49a5-bab8-4fdc5e51a269'',
     ''34c3ecc5-624a-49a5-bab8-4fdc5e51a26a'',
     ''34c3ecc5-624a-49a5-bab8-4fdc5e51a26b'',
     ''34c3ecc5-624a-49a5-bab8-4fdc5e51a26c'',
     ''34c3ecc5-624a-49a5-bab8-4fdc5e51a26d'',
     ''34c3ecc5-624a-49a5-bab8-4fdc5e51a26e'',
     ''34c3ecc5-624a-49a5-bab8-4fdc5e51a26f'',
     ''74ae54aa-6577-4e80-85e7-697cb646ff37'',
     ''a7467445-8d6a-43cc-b82c-7007664bdf69'',
     ''ee7d2bf4-8933-4a3a-8634-3328fe806e08'',
     ''eeeeeeee-eeee-eeee-eeee-000000000001'',
     ''00000001-624a-49a5-bab8-4fdc5e51a266'',
     ''00000001-624a-49a5-bab8-4fdc5e51a267'',
     ''00000001-624a-49a5-bab8-4fdc5e51a268'',
     ''00000001-624a-49a5-bab8-4fdc5e51a269'',
     ''00000001-624a-49a5-bab8-4fdc5e51a26a'',
     ''00000001-624a-49a5-bab8-4fdc5e51a26b'',
     ''00000001-624a-49a5-bab8-4fdc5e51a26c'',
     ''00000001-624a-49a5-bab8-4fdc5e51a26d'',
     ''00000001-624a-49a5-bab8-4fdc5e51a26e'',
     ''00000001-624a-49a5-bab8-4fdc5e51a26f'',
     ''00000001-6577-4e80-85e7-697cb646ff37'',
     ''00000001-8933-4a3a-8634-3328fe806e08'',
     ''00000001-8d6a-43cc-b82c-7007664bdf69'',
     ''00000001-eeee-eeee-eeee-000000000001'',
     ''00000002-624a-49a5-bab8-4fdc5e51a266'',
     ''00000002-6577-4e80-85e7-697cb646ff37'',
     ''00000002-8933-4a3a-8634-3328fe806e08'',
     ''00000003-8933-4a3a-8634-3328fe806e08'',
     ''00000003-8d6a-43cc-b82c-7007664bdf69'',
     ''00000003-eeee-eeee-eeee-000000000001'']"

text \<open>
  The \<^verbatim>\<open>for _, cluster := range clusters\<close> loop of \<^verbatim>\<open>initStorage\<close>: it returns at the
  first read error, and otherwise stores the report under the cluster name.
\<close>

fun initStorage_loop :: "os \<Rightarrow> string \<Rightarrow> string list \<Rightarrow> store \<Rightarrow> error option \<times> store" where
  "initStorage_loop sys path [] reports = (None, reports)"
| "initStorage_loop sys path (cluster # rest) reports =
     (case readReport sys path cluster of
        (report, Some err) \<Rightarrow> (Some err, reports)
      | (report, None) \<Rightarrow> initStorage_loop sys path rest (reports(cluster \<mapsto> report)))"

definition initStorage :: "os \<Rightarrow> string \<Rightarrow> store \<Rightarrow> error option \<times> store" where
  "initStorage sys path reports = initStorage_loop sys path clusters reports"



definition ListOfOrgs :: "OrgID list \<times> error option" where
  "ListOfOrgs = ([11789772, 11940171], None)"

definition clustersForOrganization11789772 :: "ClusterName list" where
  "clustersForOrganization11789772 =
     [] @
     [''34c3ecc5-624a-49a5-bab8-4fdc5e51a266'',
      ''34c3ecc5-624a-49a5-bab8-4fdc5e51a267'',
      ''34c3ecc5-624a-49a5-bab8-4fdc5e51a268'',
      ''34c3ecc5-624a-49a5-bab8-4fdc5e51a269'',
      ''34c3ecc5-624a-49a5-bab8-4fdc5e51a26a'',
      ''34c3ecc5-624a-49a5-bab8-4fdc5e51a26b'',
      ''34c3ecc5-624a-49a5-bab8-4fdc5e51a26c'',
      ''34c3ecc5-624a-49a5-bab8-4fdc5e51a26d'',
      ''34c3ecc5-624a-49a5-bab8-4fdc5e51a26e'',
      ''34c3ecc5-624a-49a5-bab8-4fdc5e51a26f'',
      ''74ae54aa-6577-4e80-85e7-697cb646ff37'',
      ''a7467445-8d6a-43cc-b82c-7007664bdf69'',
      ''ee7d2bf4-8933-4a3a-8634-3328fe806e08'',
      ''eeeeeeee-eeee-eeee-eeee-000000000001'']"

definition ListOfClustersForOrg :: "OrgID \<Rightarrow> ClusterName list \<times> error option" where
  "ListOfClustersForOrg orgID =
     (if orgID = 11940171 then ([], Some (errorString noPermissionsForOrg))
      else if orgID = 11789772 then (clustersForOrganization11789772, None)
      else if orgID = 1 then
        ([] @
         [''00000001-624a-49a5-bab8-4fdc5e51a266'',
          ''00000001-624a-49a5-bab8-4fdc5e51a267'',
          ''00000001-624a-49a5-bab8-4fdc5e51a268'',
          ''00000001-624a-49a5-bab8-4fdc5e51a269'',
          ''00000001-624a-49a5-bab8-4fdc5e51a26a'',
          ''00000001-624a-49a5-bab8-4fdc5e51a26b'',
          ''00000001-624a-49a5-bab8-4fdc5e51a26c'',
          ''00000001-624a-49a5-bab8-4fdc5e51a26d'',
          ''00000001-624a-49a5-bab8-4fdc5e51a26e'',
          ''00000001-624a-49a5-bab8-4fdc5e51a26f'',
          ''00000001-6577-4e80-85e7-697cb646ff37'',
          ''00000001-8933-4a3a-8634-3328fe806e08'',
          ''00000001-8d6a-43cc-b82c-7007664bdf69'',
          ''00000001-eeee-eeee-eeee-000000000001''], None)
      else if orgID = 2 then
        ([] @
         [''00000002-624a-49a5-bab8-4fdc5e51a266'',
          ''00000002-6577-4e80-85e7-697cb646ff37'',
          ''00000002-8933-4a3a-8634-3328fe806e08''], None)
      else if orgID = 3 then
        ([] @
         [''00000003-8933-4a3a-8634-3328fe806e08'',
          ''00000003-8d6a-43cc-b82c-7007664bdf69'',
          ''00000003-eeee-eeee-eeee-000000000001''], None)
      else ([], None))"

definition getReportForCluster :: "store \<Rightarrow> ClusterName \<Rightarrow> string \<times> bool" where
  "getReportForCluster reports clusterName =
     (case reports clusterName of
        None \<Rightarrow> ('''', False)
      | Some report \<Rightarrow> (report, True))"

text \<open>The map literal \<^verbatim>\<open>changingClusters\<close> of \<^verbatim>\<open>ReadReportForCluster\<close>.\<close>

definition changingClusters :: "string \<rightharpoonup> string list" where
  "changingClusters = map_of
     [(''cccccccc-cccc-cccc-cccc-000000000001'',
         [''34c3ecc5-624a-49a5-bab8-4fdc5e51a266'',
          ''74ae54aa-6577-4e80-85e7-697cb646ff37'',
          ''a7467445-8d6a-43cc-b82c-7007664bdf69'']),
      (''cccccccc-cccc-cccc-cccc-000000000002'',
         [''74ae54aa-6577-4e80-85e7-697cb646ff37'',
          ''a7467445-8d6a-43cc-b82c-7007664bdf69'',
          ''ee7d2bf4-8933-4a3a-8634-3328fe806e08'']),
      (''cccccccc-cccc-cccc-cccc-000000000003'',
         [''ee7d2bf4-8933-4a3a-8634-3328fe806e08'',
          ''ee7d2bf4-8933-4a3a-8634-3328fe806e08'',
          ''34c3ecc5-624a-49a5-bab8-4fdc5e51a266'']),
      (''cccccccc-cccc-cccc-cccc-000000000004'',
         [''eeeeeeee-eeee-eeee-eeee-000000000001'',
          ''eeeeeeee-eeee-eeee-eeee-000000000001'',
          ''34c3ecc5-624a-49a5-bab8-4fdc5e51a266''])]"

text \<open>
  \<^verbatim>\<open>chooseReport\<close> reads the clock, divides the minute by the period and reduces the
  index modulo the number of variants. Go panics on \<^verbatim>\<open>i %= 0\<close> and on an index out of
  range; the minute and the length are never negative, so Go's truncating \<^verbatim>\<open>/\<close> and
  \<^verbatim>\<open>%\<close> are \<open>div\<close> and \<open>mod\<close> on natural numbers.
\<close>

definition chooseReport :: "time \<Rightarrow> string list \<Rightarrow> panic + ClusterName" where
  "chooseReport currentTime variants =
     (let minute = Minute currentTime;
          i = minute div changingClustersPeriodInMinutes
      in if length variants = 0 then Inl IntegerDivideByZero
         else let i = i mod length variants
              in if i < length variants then Inr (variants ! i) else Inl IndexOutOfRange)"

definition ReadReportForCluster ::
    "time \<Rightarrow> store \<Rightarrow> ClusterName \<Rightarrow> panic + (ClusterReport \<times> error option)" where
  "ReadReportForCluster currentTime reports clusterName =
     (case (case changingClusters clusterName of
              Some changingCluster \<Rightarrow> chooseReport currentTime changingCluster
            | None \<Rightarrow> Inr clusterName) of
        Inl p \<Rightarrow> Inl p
      | Inr reportName \<Rightarrow>
          (case getReportForCluster reports reportName of
             (report, False) \<Rightarrow> Inr ('''', Some (errorString clusterNotFoundMessage))
           | (report, True) \<Rightarrow> Inr (report, None)))"

definition ReadReportForOrganizationAndCluster ::
    "store \<Rightarrow> OrgID \<Rightarrow> ClusterName \<Rightarrow> ClusterReport \<times> error option" where
  "ReadReportForOrganizationAndCluster reports orgID clusterName =
     (if orgID = 11940171 then ('''', Some (errorString noPermissionsForOrg))
      else if orgID = 1 \<or> orgID = 2 \<or> orgID = 3 \<or> orgID = 11789772 then
        (case getReportForCluster reports clusterName of
           (report, True) \<Rightarrow> (report, None)
         | (report, False) \<Rightarrow> ('''', Some (errorString clusterNotFoundMessage)))
      else ('''', Some (errorString clusterNotFoundMessage)))"

section \<open>The resolution engine of the request handlers\<close>

text \<open>
  The HTTP handlers that call the storage (\<^verbatim>\<open>readReportForCluster\<close>,
  \<^verbatim>\<open>readReportForClusters\<close>) are registered in \<^verbatim>\<open>server.go\<close> and exercised by the REST
  tests, but their bodies are not among the sources. The definitions of this section
  follow the specification's sections 4.2 to 4.5 and 6.
\<close>

text \<open>
  Modelled from the spec: the result of \<open>classify\<close> (4.4), the Resolution Outcome (3)
  and the answer of \<open>authorize\<close> (4.2), whose declarations are missing with the
  handlers.
\<close>

datatype classification = Normal | Failing nat | Malformed

datatype outcome =
  Found string
  | NotFound
  | Unauthorized
  | SyntheticFailure nat
  | MalformedIdentifier


text \<open>
  Modelled from the spec: the decimal parser of the Synthetic Failure Resolver (4.4),
  which is missing with the handlers. A string parses when it is a non-empty sequence
  of the digits 0 to 9; its value is read in base ten.
\<close>

definition digit :: "char \<Rightarrow> nat option" where
  "digit c = (let n = (of_char c :: nat) in if 48 \<le> n \<and> n \<le> 57 then Some (n - 48) else None)"

fun parseDigits :: "nat \<Rightarrow> string \<Rightarrow> nat option" where
  "parseDigits acc [] = Some acc"
| "parseDigits acc (c # cs) =
     (case digit c of
        None \<Rightarrow> None
      | Some d \<Rightarrow> parseDigits (10 * acc + d) cs)"

definition parseDecimal :: "string \<Rightarrow> nat option" where
  "parseDecimal s = (if s = [] then None else parseDigits 0 s)"

definition trailing3 :: "string \<Rightarrow> string" where
  "trailing3 clusterIdentifier = drop (length clusterIdentifier - 3) clusterIdentifier"

text \<open>
  Modelled from the spec: \<open>classify\<close> of the Synthetic Failure Resolver (4.4), missing
  with the handlers. An identifier matches the naming pattern when it starts with the
  fixed prefix; the specification does not give the prefix, so it is the parameter
  \<open>failurePrefix\<close> (the REST tests request identifiers that start with
  \<^verbatim>\<open>ffffffff-ffff-ffff-ffff-\<close>). The trailing three characters are parsed as an
  integer: success is \<open>Failing\<close> with the code, failure is \<open>Malformed\<close>.
\<close>

definition classify :: "string \<Rightarrow> string \<Rightarrow> classification" where
  "classify failurePrefix clusterIdentifier =
     (if take (length failurePrefix) clusterIdentifier = failurePrefix then
        (case parseDecimal (trailing3 clusterIdentifier) of
           Some code \<Rightarrow> Failing code
         | None \<Rightarrow> Malformed)
      else Normal)"


text \<open>
  Modelled from the spec: \<open>resolve\<close> of the Rotation Resolver (4.3) as the handlers
  reach it, over the rotation table of the source: the identity on an identifier that
  is not rotating, and otherwise the candidate at position
  \<open>floor(minute / 15) mod N\<close>.
\<close>

definition resolve :: "time \<Rightarrow> string \<Rightarrow> string" where
  "resolve now clusterIdentifier =
     (case changingClusters clusterIdentifier of
        None \<Rightarrow> clusterIdentifier
      | Some candidates \<Rightarrow> candidates ! ((Minute now div 15) mod length candidates))"

text \<open>
  Modelled from the spec: the per-cluster resolution of a request that passed Access
  Control (2, 3 and 7), missing with the handlers: the Synthetic Failure Resolver, then
  the Rotation Resolver, then the Fixture Store. A \<open>Failing\<close> identifier
  short-circuits with its code and a \<open>Malformed\<close> one is surfaced as
  \<open>MalformedIdentifier\<close>.
\<close>

definition resolveCluster :: "string \<Rightarrow> time \<Rightarrow> store \<Rightarrow> string \<Rightarrow> outcome" where
  "resolveCluster failurePrefix now reports clusterIdentifier =
     (case classify failurePrefix clusterIdentifier of
        Failing code \<Rightarrow> SyntheticFailure code
      | Malformed \<Rightarrow> MalformedIdentifier
      | Normal \<Rightarrow>
          (case reports (resolve now clusterIdentifier) of
             Some payload \<Rightarrow> Found payload
           | None \<Rightarrow> NotFound))"

text \<open>
  Modelled from the spec: the status of the per-cluster report fetch (6), assigned by
  the missing routing layer: 200 with the report, 404 for not found, 403 for a denied
  organization, the decoded code for a synthetic failure. For a malformed suffix the
  specification (9) records that the existing expectations demand a 200 response, which
  is what the REST test \<^verbatim>\<open>checkReportForFailedClusterNegativeTestCase\<close> asserts.
\<close>

fun statusCode :: "outcome \<Rightarrow> nat" where
  "statusCode (Found payload) = 200"
| "statusCode NotFound = 404"
| "statusCode Unauthorized = 403"
| "statusCode (SyntheticFailure code) = code"
| "statusCode MalformedIdentifier = 200"








section \<open>Two file systems for concrete runs\<close>

text \<open>
  In \<open>readable_os\<close> every file can be read and its content names its path; in
  \<open>failing_os\<close> only the report of the first cluster of the list exists.
\<close>

definition readable_os :: os where
  "readable_os =
     \<lparr>filepath_Abs = (\<lambda>p. Inr (''/srv/'' @ p)),
      os_ReadFile = (\<lambda>p. Inr (''contents of '' @ p))\<rparr>"


section \<open>Properties of the storage\<close>

subsection \<open>The loading loop\<close>

lemma initStorage_loop_prefix:
  "\<forall>x\<in>set pre. snd (readReport sys path x) = None \<Longrightarrow>
   initStorage_loop sys path (pre @ rest) reports =
     initStorage_loop sys path rest
       (\<lambda>k. if k \<in> set pre then Some (fst (readReport sys path k)) else reports k)"
proof (induction pre arbitrary: reports)
  case Nil
  then show ?case by simp
next
  case (Cons c pre)
  obtain r where r: "readReport sys path c = (r, None)"
    using Cons.prems by (cases "readReport sys path c") auto
  have pre: "\<forall>x\<in>set pre. snd (readReport sys path x) = None"
    using Cons.prems by simp
  have "(\<lambda>k. if k \<in> set pre then Some (fst (readReport sys path k)) else (reports(c \<mapsto> r)) k) =
        (\<lambda>k. if k \<in> set (c # pre) then Some (fst (readReport sys path k)) else reports k)"
    using r by (auto simp: fun_eq_iff)
  moreover have "initStorage_loop sys path ((c # pre) @ rest) reports =
      initStorage_loop sys path (pre @ rest) (reports(c \<mapsto> r))"
    using r by simp
  ultimately show ?case
    using Cons.IH[OF pre, of "reports(c \<mapsto> r)"] by (simp only:)
qed

lemma initStorage_loop_success:
  "\<forall>x\<in>set cs. snd (readReport sys path x) = None \<Longrightarrow>
   initStorage_loop sys path cs reports =
     (None, \<lambda>k. if k \<in> set cs then Some (fst (readReport sys path k)) else reports k)"
  using initStorage_loop_prefix[of cs sys path "[]" reports] by simp


lemma initStorage_loop_dom:
  "dom (snd (initStorage_loop sys path cs reports)) \<subseteq> dom reports \<union> set cs"
proof (induction cs arbitrary: reports)
  case Nil
  then show ?case by simp
next
  case (Cons c cs)
  show ?case
  proof (cases "readReport sys path c")
    case (Pair r e)
    show ?thesis
    proof (cases e)
      case None
      then have "initStorage_loop sys path (c # cs) reports =
          initStorage_loop sys path cs (reports(c \<mapsto> r))"
        using Pair by simp
      moreover have "dom (reports(c \<mapsto> r)) \<union> set cs = dom reports \<union> set (c # cs)"
        by auto
      ultimately show ?thesis
        using Cons.IH[of "reports(c \<mapsto> r)"] by (simp only:)
    next
      case (Some err)
      with Pair show ?thesis by auto
    qed
  qed
qed

lemma initStorage_dom:
  "initStorage sys path Map.empty = (err, reports) \<Longrightarrow> dom reports \<subseteq> set clusters"
  using initStorage_loop_dom[of sys path clusters Map.empty]
  by (simp add: initStorage_def)

lemma clusters_not_changing: "c \<in> set clusters \<Longrightarrow> changingClusters c = None"
  by (auto simp: clusters_def changingClusters_def)

lemma readReport_readable:
  "readReport readable_os path c = (''contents of /srv/'' @ path @ ''/report_'' @ c @ ''.json'', None)"
  by (simp add: readReport_def readable_os_def)

lemma initStorage_readable:
  "initStorage readable_os path reports =
     (None, \<lambda>k. if k \<in> set clusters
                 then Some (''contents of /srv/'' @ path @ ''/report_'' @ k @ ''.json'')
                 else reports k)"
  by (simp add: initStorage_def initStorage_loop_success readReport_readable fun_eq_iff)

subsection \<open>Rotation\<close>

lemma Minute_lt_60: "Minute t < 60"
  by (simp add: Minute_def less_mult_imp_div_less)

lemma chooseReport_index:
  "variants \<noteq> [] \<Longrightarrow>
     chooseReport now variants = Inr (variants ! ((Minute now div 15) mod length variants))"
  by (simp add: chooseReport_def changingClustersPeriodInMinutes_def Let_def)

lemma changingClusters_nonempty: "changingClusters c = Some vs \<Longrightarrow> length vs = 3"
  by (auto simp: changingClusters_def split: if_splits)

lemma ReadReportForCluster_rotating:
  "changingClusters c = Some vs \<Longrightarrow>
   ReadReportForCluster now reports c =
     (case reports (vs ! ((Minute now div 15) mod length vs)) of
        Some report \<Rightarrow> Inr (report, None)
      | None \<Rightarrow> Inr ('''', Some (errorString clusterNotFoundMessage)))"
proof -
  assume a: "changingClusters c = Some vs"
  then have "vs \<noteq> []"
    using changingClusters_nonempty[of c vs] by auto
  then have "chooseReport now vs = Inr (vs ! ((Minute now div 15) mod length vs))"
    by (rule chooseReport_index)
  with a show ?thesis
    by (simp add: ReadReportForCluster_def getReportForCluster_def split: option.splits)
qed

lemma ReadReportForCluster_plain:
  "changingClusters c = None \<Longrightarrow>
   ReadReportForCluster now reports c =
     (case reports c of
        Some report \<Rightarrow> Inr (report, None)
      | None \<Rightarrow> Inr ('''', Some (errorString clusterNotFoundMessage)))"
  by (auto simp: ReadReportForCluster_def getReportForCluster_def split: option.splits)

text \<open>
  Claim C1. For a non-empty sequence of variants of length \<open>N\<close> and every time,
  \<open>chooseReport\<close> returns the variant at index \<open>(minute div 15) mod N\<close>. For a
  sequence of length 4, minutes 0 and 14 select index 0, minute 15 index 1, minute 44
  index 2 and minute 59 index 3. \<open>ReadReportForCluster\<close> on a name of the table of
  changing clusters looks up the variant so selected: it returns its stored report, or
  the error \<open>Cluster not found\<close> when the map has none for it.
\<close>

theorem chooseReport_rotates_by_quarter_hour:
  "(variants \<noteq> [] \<longrightarrow>
      chooseReport now variants = Inr (variants ! ((Minute now div 15) mod length variants)))
   \<and> (length variants = 4 \<longrightarrow>
        (Minute now = 0 \<longrightarrow> chooseReport now variants = Inr (variants ! 0)) \<and>
        (Minute now = 14 \<longrightarrow> chooseReport now variants = Inr (variants ! 0)) \<and>
        (Minute now = 15 \<longrightarrow> chooseReport now variants = Inr (variants ! 1)) \<and>
        (Minute now = 44 \<longrightarrow> chooseReport now variants = Inr (variants ! 2)) \<and>
        (Minute now = 59 \<longrightarrow> chooseReport now variants = Inr (variants ! 3)))
   \<and> (changingClusters clusterName = Some variants \<longrightarrow>
        ReadReportForCluster now reports clusterName =
          (case reports (variants ! ((Minute now div 15) mod length variants)) of
             Some report \<Rightarrow> Inr (report, None)
           | None \<Rightarrow> Inr ('''', Some (errorString clusterNotFoundMessage))))"
proof (intro conjI impI)
  assume "variants \<noteq> []"
  then show "chooseReport now variants = Inr (variants ! ((Minute now div 15) mod length variants))"
    by (rule chooseReport_index)
next
  assume "changingClusters clusterName = Some variants"
  then show "ReadReportForCluster now reports clusterName =
          (case reports (variants ! ((Minute now div 15) mod length variants)) of
             Some report \<Rightarrow> Inr (report, None)
           | None \<Rightarrow> Inr ('''', Some (errorString clusterNotFoundMessage)))"
    by (rule ReadReportForCluster_rotating)
qed (simp_all add: chooseReport_def changingClustersPeriodInMinutes_def)

theorem chooseReport_rotates_witness:
  "chooseReport (Time 0) [''a'', ''b'', ''c'', ''d''] = Inr ''a''
   \<and> chooseReport (Time 899) [''a'', ''b'', ''c'', ''d''] = Inr ''a''
   \<and> chooseReport (Time 900) [''a'', ''b'', ''c'', ''d''] = Inr ''b''
   \<and> chooseReport (Time 2699) [''a'', ''b'', ''c'', ''d''] = Inr ''c''
   \<and> chooseReport (Time 3599) [''a'', ''b'', ''c'', ''d''] = Inr ''d''
   \<and> ReadReportForCluster (Time 900) (snd (initStorage readable_os ''data'' Map.empty))
         ''cccccccc-cccc-cccc-cccc-000000000001'' =
       Inr (''contents of /srv/data/report_74ae54aa-6577-4e80-85e7-697cb646ff37.json'', None)"
  using
    chooseReport_rotates_by_quarter_hour
      [of "[''a'', ''b'', ''c'', ''d'']" "Time 0" "''x''" Map.empty]
    chooseReport_rotates_by_quarter_hour
      [of "[''a'', ''b'', ''c'', ''d'']" "Time 899" "''x''" Map.empty]
    chooseReport_rotates_by_quarter_hour
      [of "[''a'', ''b'', ''c'', ''d'']" "Time 900" "''x''" Map.empty]
    chooseReport_rotates_by_quarter_hour
      [of "[''a'', ''b'', ''c'', ''d'']" "Time 2699" "''x''" Map.empty]
    chooseReport_rotates_by_quarter_hour
      [of "[''a'', ''b'', ''c'', ''d'']" "Time 3599" "''x''" Map.empty]
    chooseReport_rotates_by_quarter_hour
      [of "[''34c3ecc5-624a-49a5-bab8-4fdc5e51a266'',
            ''74ae54aa-6577-4e80-85e7-697cb646ff37'',
            ''a7467445-8d6a-43cc-b82c-7007664bdf69'']"
          "Time 900" "''cccccccc-cccc-cccc-cccc-000000000001''"
          "snd (initStorage readable_os ''data'' Map.empty)"]
  by (simp add: Minute_def changingClusters_def initStorage_readable clusters_def)

subsection \<open>Organizations\<close>

lemma getReportForCluster_eq:
  "getReportForCluster reports c =
     (case reports c of None \<Rightarrow> ('''', False) | Some report \<Rightarrow> (report, True))"
  by (simp add: getReportForCluster_def)

text \<open>
  Claim C2. The organization 11940171 is denied: \<open>ListOfClustersForOrg\<close> returns the
  empty list with the error \<open>You have no permissions to get or change info about this
  organization\<close>, and \<open>ReadReportForOrganizationAndCluster\<close> returns the empty report
  with the same error for every cluster name and every content of the map. No other
  organization ID gets this error from either operation, so among 1, 2, 3, 11789772 and
  11940171 exactly one is denied.
\<close>

theorem denied_organization_is_unauthorized:
  "ListOfClustersForOrg 11940171 = ([], Some (errorString noPermissionsForOrg))
   \<and> ReadReportForOrganizationAndCluster reports 11940171 clusterName =
         ('''', Some (errorString noPermissionsForOrg))
   \<and> (snd (ListOfClustersForOrg orgID) = Some (errorString noPermissionsForOrg))
         = (orgID = 11940171)
   \<and> (snd (ReadReportForOrganizationAndCluster reports orgID clusterName) =
           Some (errorString noPermissionsForOrg))
         = (orgID = 11940171)
   \<and> filter (\<lambda>org. snd (ListOfClustersForOrg org) \<noteq> None) [1, 2, 3, 11789772, 11940171]
         = [11940171]
   \<and> noPermissionsForOrg =
         ''You have no permissions to get or change info about this organization''"
proof (intro conjI)
  show "(snd (ReadReportForOrganizationAndCluster reports orgID clusterName) =
           Some (errorString noPermissionsForOrg)) = (orgID = 11940171)"
    by (simp add: ReadReportForOrganizationAndCluster_def getReportForCluster_def
        noPermissionsForOrg_def clusterNotFoundMessage_def split: option.splits)
qed (simp_all add: ListOfClustersForOrg_def ReadReportForOrganizationAndCluster_def
       noPermissionsForOrg_def)

text \<open>
  Claim C3. For every organization ID other than 11940171, \<open>ListOfClustersForOrg\<close>
  returns no error: the fixed ordered lists for 11789772, 1, 2 and 3, and the empty list
  for every other ID, which differs from the result for the denied organization.
\<close>

theorem permitted_organization_cluster_list:
  "orgID \<noteq> 11940171 \<Longrightarrow>
     snd (ListOfClustersForOrg orgID) = None
     \<and> ListOfClustersForOrg orgID \<noteq> ListOfClustersForOrg 11940171
     \<and> (orgID \<notin> {1, 2, 3, 11789772} \<longrightarrow> ListOfClustersForOrg orgID = ([], None))
     \<and> ListOfClustersForOrg 11789772 =
         ([''34c3ecc5-624a-49a5-bab8-4fdc5e51a266'',
           ''34c3ecc5-624a-49a5-bab8-4fdc5e51a267'',
           ''34c3ecc5-624a-49a5-bab8-4fdc5e51a268'',
           ''34c3ecc5-624a-49a5-bab8-4fdc5e51a269'',
           ''34c3ecc5-624a-49a5-bab8-4fdc5e51a26a'',
           ''34c3ecc5-624a-49a5-bab8-4fdc5e51a26b'',
           ''34c3ecc5-624a-49a5-bab8-4fdc5e51a26c'',
           ''34c3ecc5-624a-49a5-bab8-4fdc5e51a26d'',
           ''34c3ecc5-624a-49a5-bab8-4fdc5e51a26e'',
           ''34c3ecc5-624a-49a5-bab8-4fdc5e51a26f'',
           ''74ae54aa-6577-4e80-85e7-697cb646ff37'',
           ''a7467445-8d6a-43cc-b82c-7007664bdf69'',
           ''ee7d2bf4-8933-4a3a-8634-3328fe806e08'',
           ''eeeeeeee-eeee-eeee-eeee-000000000001''], None)
     \<and> ListOfClustersForOrg 1 =
         ([''00000001-624a-49a5-bab8-4fdc5e51a266'',
           ''00000001-624a-49a5-bab8-4fdc5e51a267'',
           ''00000001-624a-49a5-bab8-4fdc5e51a268'',
           ''00000001-624a-49a5-bab8-4fdc5e51a269'',
           ''00000001-624a-49a5-bab8-4fdc5e51a26a'',
           ''00000001-624a-49a5-bab8-4fdc5e51a26b'',
           ''00000001-624a-49a5-bab8-4fdc5e51a26c'',
           ''00000001-624a-49a5-bab8-4fdc5e51a26d'',
           ''00000001-624a-49a5-bab8-4fdc5e51a26e'',
           ''00000001-624a-49a5-bab8-4fdc5e51a26f'',
           ''00000001-6577-4e80-85e7-697cb646ff37'',
           ''00000001-8933-4a3a-8634-3328fe806e08'',
           ''00000001-8d6a-43cc-b82c-7007664bdf69'',
           ''00000001-eeee-eeee-eeee-000000000001''], None)
     \<and> ListOfClustersForOrg 2 =
         ([''00000002-624a-49a5-bab8-4fdc5e51a266'',
           ''00000002-6577-4e80-85e7-697cb646ff37'',
           ''00000002-8933-4a3a-8634-3328fe806e08''], None)
     \<and> ListOfClustersForOrg 3 =
         ([''00000003-8933-4a3a-8634-3328fe806e08'',
           ''00000003-8d6a-43cc-b82c-7007664bdf69'',
           ''00000003-eeee-eeee-eeee-000000000001''], None)"
  by (simp add: ListOfClustersForOrg_def clustersForOrganization11789772_def)

theorem permitted_organization_cluster_list_witness:
  "(1234::nat) \<noteq> 11940171 \<and> ListOfClustersForOrg 1234 = ([], None)
   \<and> snd (ListOfClustersForOrg 2) = None
   \<and> fst (ListOfClustersForOrg 2) =
         [''00000002-624a-49a5-bab8-4fdc5e51a266'',
          ''00000002-6577-4e80-85e7-697cb646ff37'',
          ''00000002-8933-4a3a-8634-3328fe806e08'']"
  using permitted_organization_cluster_list [of 1234]
    permitted_organization_cluster_list [of 2]
  by simp

text \<open>
  Claim C10. For every organization ID other than 1, 2, 3, 11789772 and 11940171 and
  every cluster name, \<open>ReadReportForOrganizationAndCluster\<close> returns the empty report
  with the error \<open>Cluster not found\<close>, whatever the map holds.
\<close>

theorem unknown_organization_reads_no_report:
  "orgID \<notin> {1, 2, 3, 11789772, 11940171} \<Longrightarrow>
     ReadReportForOrganizationAndCluster reports orgID clusterName =
       ('''', Some (errorString clusterNotFoundMessage))"
  by (simp add: ReadReportForOrganizationAndCluster_def)

theorem unknown_organization_reads_no_report_witness:
  "(1234::nat) \<notin> {1, 2, 3, 11789772, 11940171}
   \<and> snd (initStorage readable_os ''data'' Map.empty) ''34c3ecc5-624a-49a5-bab8-4fdc5e51a266''
       = Some ''contents of /srv/data/report_34c3ecc5-624a-49a5-bab8-4fdc5e51a266.json''
   \<and> ReadReportForOrganizationAndCluster (snd (initStorage readable_os ''data'' Map.empty))
         1234 ''34c3ecc5-624a-49a5-bab8-4fdc5e51a266'' =
       ('''', Some (errorString ''Cluster not found''))"
  using unknown_organization_reads_no_report
    [of 1234 "snd (initStorage readable_os ''data'' Map.empty)"
        "''34c3ecc5-624a-49a5-bab8-4fdc5e51a266''"]
  by (simp add: initStorage_readable clusters_def clusterNotFoundMessage_def)

subsection \<open>Lookup of a report\<close>

text \<open>
  Claim C9. For a cluster name that is neither in the table of changing clusters nor a
  key of the map, \<open>ReadReportForCluster\<close> returns the error \<open>Cluster not found\<close>, and so
  does \<open>ReadReportForOrganizationAndCluster\<close> for the organizations 1, 2, 3 and
  11789772 on a name that is not a key. \<open>ReadReportForCluster\<close> never panics. A name that
  is a key has its stored report returned unchanged with no error: by
  \<open>ReadReportForOrganizationAndCluster\<close> for those organizations, and by
  \<open>ReadReportForCluster\<close> when the name is not in the table, which holds for every key of
  a map that \<open>initStorage\<close> filled from the empty map.
\<close>

theorem unknown_cluster_not_found_known_cluster_verbatim:
  "(changingClusters clusterName = None \<and> reports clusterName = None \<longrightarrow>
      ReadReportForCluster now reports clusterName =
        Inr ('''', Some (errorString clusterNotFoundMessage)))
   \<and> (orgID \<in> {1, 2, 3, 11789772} \<and> reports clusterName = None \<longrightarrow>
      ReadReportForOrganizationAndCluster reports orgID clusterName =
        ('''', Some (errorString clusterNotFoundMessage)))
   \<and> (\<exists>r. ReadReportForCluster now reports clusterName = Inr r)
   \<and> (changingClusters clusterName = None \<and> reports clusterName = Some report \<longrightarrow>
      ReadReportForCluster now reports clusterName = Inr (report, None))
   \<and> (orgID \<in> {1, 2, 3, 11789772} \<and> reports clusterName = Some report \<longrightarrow>
      ReadReportForOrganizationAndCluster reports orgID clusterName = (report, None))
   \<and> (initStorage sys path Map.empty = (err, reports) \<and> reports clusterName = Some report \<longrightarrow>
      ReadReportForCluster now reports clusterName = Inr (report, None))
   \<and> clusterNotFoundMessage = ''Cluster not found''"
proof (intro conjI impI)
  show "\<exists>r. ReadReportForCluster now reports clusterName = Inr r"
  proof (cases "changingClusters clusterName")
    case None
    then show ?thesis
      by (simp add: ReadReportForCluster_plain split: option.splits)
  next
    case (Some vs)
    then show ?thesis
      by (simp add: ReadReportForCluster_rotating split: option.splits)
  qed
next
  assume a: "initStorage sys path Map.empty = (err, reports) \<and> reports clusterName = Some report"
  then have "clusterName \<in> set clusters"
    using initStorage_dom[of sys path err reports] by auto
  then have "changingClusters clusterName = None"
    by (rule clusters_not_changing)
  with a show "ReadReportForCluster now reports clusterName = Inr (report, None)"
    by (simp add: ReadReportForCluster_plain)
qed (auto simp: ReadReportForCluster_plain ReadReportForOrganizationAndCluster_def
       getReportForCluster_eq clusterNotFoundMessage_def)

theorem unknown_cluster_not_found_witness:
  "ReadReportForCluster (Time 0) (snd (initStorage readable_os ''data'' Map.empty))
       ''bbbbbbbb-bbbb-bbbb-bbbb-cccccccccccc'' =
     Inr ('''', Some (errorString ''Cluster not found''))
   \<and> ReadReportForOrganizationAndCluster (snd (initStorage readable_os ''data'' Map.empty))
       1 ''bbbbbbbb-bbbb-bbbb-bbbb-cccccccccccc'' =
     ('''', Some (errorString ''Cluster not found''))
   \<and> ReadReportForCluster (Time 0) (snd (initStorage readable_os ''data'' Map.empty))
       ''00000002-6577-4e80-85e7-697cb646ff37'' =
     Inr (''contents of /srv/data/report_00000002-6577-4e80-85e7-697cb646ff37.json'', None)
   \<and> ReadReportForOrganizationAndCluster (snd (initStorage readable_os ''data'' Map.empty))
       1 ''00000002-6577-4e80-85e7-697cb646ff37'' =
     (''contents of /srv/data/report_00000002-6577-4e80-85e7-697cb646ff37.json'', None)"
proof -
  let ?S = "snd (initStorage readable_os ''data'' Map.empty)"
  have u1: "changingClusters ''bbbbbbbb-bbbb-bbbb-bbbb-cccccccccccc'' = None"
    by (simp add: changingClusters_def)
  have u2: "?S ''bbbbbbbb-bbbb-bbbb-bbbb-cccccccccccc'' = None"
    by (simp add: initStorage_readable clusters_def)
  have k1: "changingClusters ''00000002-6577-4e80-85e7-697cb646ff37'' = None"
    by (simp add: changingClusters_def)
  have k2: "?S ''00000002-6577-4e80-85e7-697cb646ff37'' =
      Some ''contents of /srv/data/report_00000002-6577-4e80-85e7-697cb646ff37.json''"
    by (simp add: initStorage_readable clusters_def)
  have org: "(1::nat) \<in> {1, 2, 3, 11789772}"
    by simp
  note unknown = unknown_cluster_not_found_known_cluster_verbatim
      [of "''bbbbbbbb-bbbb-bbbb-bbbb-cccccccccccc''" ?S "Time 0" 1 "''''"
          readable_os "''data''" None]
  note known = unknown_cluster_not_found_known_cluster_verbatim
      [of "''00000002-6577-4e80-85e7-697cb646ff37''" ?S "Time 0" 1
          "''contents of /srv/data/report_00000002-6577-4e80-85e7-697cb646ff37.json''"
          readable_os "''data''" None]
  have a: "ReadReportForCluster (Time 0) ?S ''bbbbbbbb-bbbb-bbbb-bbbb-cccccccccccc'' =
      Inr ('''', Some (errorString clusterNotFoundMessage))"
    using unknown u1 u2 by blast
  have b: "ReadReportForOrganizationAndCluster ?S 1 ''bbbbbbbb-bbbb-bbbb-bbbb-cccccccccccc'' =
      ('''', Some (errorString clusterNotFoundMessage))"
    using unknown org u2 by blast
  have c: "ReadReportForCluster (Time 0) ?S ''00000002-6577-4e80-85e7-697cb646ff37'' =
      Inr (''contents of /srv/data/report_00000002-6577-4e80-85e7-697cb646ff37.json'', None)"
    using known k1 k2 by blast
  have d: "ReadReportForOrganizationAndCluster ?S 1 ''00000002-6577-4e80-85e7-697cb646ff37'' =
      (''contents of /srv/data/report_00000002-6577-4e80-85e7-697cb646ff37.json'', None)"
    using known org k2 by blast
  have m: "clusterNotFoundMessage = ''Cluster not found''"
    by (simp add: clusterNotFoundMessage_def)
  show ?thesis
    using a b c d unfolding m by (intro conjI)
qed

subsection \<open>Loading the reports\<close>








subsection \<open>Changing clusters under an organization\<close>

text \<open>
  Claim C7. \<open>ReadReportForOrganizationAndCluster\<close> looks the requested name up without
  consulting the table of changing clusters. On a map loaded from readable files, the
  permitted organization 11789772 gets \<open>Cluster not found\<close> for the changing cluster
  \<^verbatim>\<open>cccccccc-cccc-cccc-cccc-000000000001\<close>, while \<open>ReadReportForCluster\<close> at minute 0
  returns the report of its first variant.
\<close>

theorem organization_scoped_read_skips_rotation:
  "ReadReportForOrganizationAndCluster (snd (initStorage readable_os ''data'' Map.empty))
       11789772 ''cccccccc-cccc-cccc-cccc-000000000001'' =
     ('''', Some (errorString ''Cluster not found''))
   \<and> ReadReportForCluster (Time 0) (snd (initStorage readable_os ''data'' Map.empty))
       ''cccccccc-cccc-cccc-cccc-000000000001'' =
     Inr (''contents of /srv/data/report_34c3ecc5-624a-49a5-bab8-4fdc5e51a266.json'', None)"
proof -
  let ?S = "snd (initStorage readable_os ''data'' Map.empty)"
  have absent: "?S ''cccccccc-cccc-cccc-cccc-000000000001'' = None"
    by (simp add: initStorage_readable clusters_def)
  have backing: "?S ''34c3ecc5-624a-49a5-bab8-4fdc5e51a266'' =
      Some ''contents of /srv/data/report_34c3ecc5-624a-49a5-bab8-4fdc5e51a266.json''"
    by (simp add: initStorage_readable clusters_def)
  have table: "changingClusters ''cccccccc-cccc-cccc-cccc-000000000001'' =
      Some [''34c3ecc5-624a-49a5-bab8-4fdc5e51a266'',
            ''74ae54aa-6577-4e80-85e7-697cb646ff37'',
            ''a7467445-8d6a-43cc-b82c-7007664bdf69'']"
    by (simp add: changingClusters_def)
  have scoped: "ReadReportForOrganizationAndCluster ?S 11789772
      ''cccccccc-cccc-cccc-cccc-000000000001'' =
      ('''', Some (errorString ''Cluster not found''))"
    using absent
    by (simp add: ReadReportForOrganizationAndCluster_def getReportForCluster_eq
        clusterNotFoundMessage_def)
  have plain: "ReadReportForCluster (Time 0) ?S ''cccccccc-cccc-cccc-cccc-000000000001'' =
      Inr (''contents of /srv/data/report_34c3ecc5-624a-49a5-bab8-4fdc5e51a266.json'', None)"
    using backing by (simp add: ReadReportForCluster_rotating [OF table] Minute_def)
  show ?thesis
    using scoped plain by (intro conjI)
qed

section \<open>Properties of the resolution engine\<close>

subsection \<open>The rotation of the engine is the storage's\<close>

lemma resolve_agrees_with_storage:
  "ReadReportForCluster now reports clusterIdentifier =
     Inr (case reports (resolve now clusterIdentifier) of
            Some payload \<Rightarrow> (payload, None)
          | None \<Rightarrow> ('''', Some (errorString clusterNotFoundMessage)))"
proof (cases "changingClusters clusterIdentifier")
  case None
  then show ?thesis
    by (simp add: ReadReportForCluster_plain resolve_def split: option.splits)
next
  case (Some candidates)
  then show ?thesis
    by (simp add: ReadReportForCluster_rotating resolve_def split: option.splits)
qed

subsection \<open>Synthetic failures\<close>

lemma parseDecimal_three:
  "digit d1 = Some n1 \<Longrightarrow> digit d2 = Some n2 \<Longrightarrow> digit d3 = Some n3 \<Longrightarrow>
   parseDecimal [d1, d2, d3] = Some (100 * n1 + 10 * n2 + n3)"
  by (simp add: parseDecimal_def)

lemma parseDecimal_200: "parseDecimal ''200'' = Some 200"
  by (simp add: parseDecimal_def digit_def)

lemma parseDecimal_400: "parseDecimal ''400'' = Some 400"
  by (simp add: parseDecimal_def digit_def)

lemma parseDecimal_500: "parseDecimal ''500'' = Some 500"
  by (simp add: parseDecimal_def digit_def)

lemma resolveCluster_Failing:
  "take (length failurePrefix) clusterIdentifier = failurePrefix \<Longrightarrow>
   parseDecimal (trailing3 clusterIdentifier) = Some code \<Longrightarrow>
   classify failurePrefix clusterIdentifier = Failing code
   \<and> resolveCluster failurePrefix now reports clusterIdentifier = SyntheticFailure code"
  by (simp add: classify_def resolveCluster_def)

text \<open>
  Claim C4. For an identifier that starts with the failure prefix and whose trailing
  three characters are decimal digits, \<open>classify\<close> returns \<open>Failing\<close> with the number
  they spell, and the per-cluster resolution returns \<open>SyntheticFailure\<close> with that
  status for every time and every content of the store, without a lookup: the suffix
  \<open>200\<close> gives 200, \<open>400\<close> gives 400 and \<open>500\<close> gives 500. The per-cluster resolution
  takes no organization.
\<close>

theorem synthetic_failure_short_circuits:
  "take (length failurePrefix) clusterIdentifier = failurePrefix \<Longrightarrow>
     (trailing3 clusterIdentifier = [d1, d2, d3] \<and> digit d1 = Some n1 \<and> digit d2 = Some n2
        \<and> digit d3 = Some n3 \<longrightarrow>
        classify failurePrefix clusterIdentifier = Failing (100 * n1 + 10 * n2 + n3)
        \<and> resolveCluster failurePrefix now reports clusterIdentifier =
            SyntheticFailure (100 * n1 + 10 * n2 + n3)
        \<and> statusCode (resolveCluster failurePrefix now reports clusterIdentifier) =
            100 * n1 + 10 * n2 + n3)
     \<and> (trailing3 clusterIdentifier = ''200'' \<longrightarrow>
          resolveCluster failurePrefix now reports clusterIdentifier = SyntheticFailure 200)
     \<and> (trailing3 clusterIdentifier = ''400'' \<longrightarrow>
          resolveCluster failurePrefix now reports clusterIdentifier = SyntheticFailure 400)
     \<and> (trailing3 clusterIdentifier = ''500'' \<longrightarrow>
          resolveCluster failurePrefix now reports clusterIdentifier = SyntheticFailure 500)"
proof (intro conjI impI)
  assume p: "take (length failurePrefix) clusterIdentifier = failurePrefix"
  {
    assume d: "trailing3 clusterIdentifier = [d1, d2, d3] \<and> digit d1 = Some n1
        \<and> digit d2 = Some n2 \<and> digit d3 = Some n3"
    then have "parseDecimal (trailing3 clusterIdentifier) = Some (100 * n1 + 10 * n2 + n3)"
      by (simp add: parseDecimal_three)
    from resolveCluster_Failing [OF p this, of now reports]
    show "classify failurePrefix clusterIdentifier = Failing (100 * n1 + 10 * n2 + n3)"
      and "resolveCluster failurePrefix now reports clusterIdentifier =
            SyntheticFailure (100 * n1 + 10 * n2 + n3)"
      and "statusCode (resolveCluster failurePrefix now reports clusterIdentifier) =
            100 * n1 + 10 * n2 + n3"
      by simp_all
  }
  {
    assume "trailing3 clusterIdentifier = ''200''"
    then have "parseDecimal (trailing3 clusterIdentifier) = Some 200"
      by (simp only: parseDecimal_200)
    from resolveCluster_Failing [OF p this, of now reports]
    show "resolveCluster failurePrefix now reports clusterIdentifier = SyntheticFailure 200"
      by simp
  }
  {
    assume "trailing3 clusterIdentifier = ''400''"
    then have "parseDecimal (trailing3 clusterIdentifier) = Some 400"
      by (simp only: parseDecimal_400)
    from resolveCluster_Failing [OF p this, of now reports]
    show "resolveCluster failurePrefix now reports clusterIdentifier = SyntheticFailure 400"
      by simp
  }
  {
    assume "trailing3 clusterIdentifier = ''500''"
    then have "parseDecimal (trailing3 clusterIdentifier) = Some 500"
      by (simp only: parseDecimal_500)
    from resolveCluster_Failing [OF p this, of now reports]
    show "resolveCluster failurePrefix now reports clusterIdentifier = SyntheticFailure 500"
      by simp
  }
qed

theorem synthetic_failure_witness:
  "resolveCluster ''ffffffff-ffff-ffff-ffff-'' (Time 0)
       (snd (initStorage readable_os ''data'' Map.empty))
       ''ffffffff-ffff-ffff-ffff-000000000200'' = SyntheticFailure 200
   \<and> resolveCluster ''ffffffff-ffff-ffff-ffff-'' (Time 900) Map.empty
       ''ffffffff-ffff-ffff-ffff-000000000400'' = SyntheticFailure 400
   \<and> resolveCluster ''ffffffff-ffff-ffff-ffff-'' (Time 0) Map.empty
       ''ffffffff-ffff-ffff-ffff-000000000500'' = SyntheticFailure 500
   \<and> classify ''ffffffff-ffff-ffff-ffff-'' ''ffffffff-ffff-ffff-ffff-000000000404'' =
       Failing 404
   \<and> statusCode (resolveCluster ''ffffffff-ffff-ffff-ffff-'' (Time 0) Map.empty
       ''ffffffff-ffff-ffff-ffff-000000000404'') = 404"
proof -
  let ?p = "''ffffffff-ffff-ffff-ffff-''"
  let ?S = "snd (initStorage readable_os ''data'' Map.empty)"
  have p200: "take (length ?p) ''ffffffff-ffff-ffff-ffff-000000000200'' = ?p" by simp
  have p400: "take (length ?p) ''ffffffff-ffff-ffff-ffff-000000000400'' = ?p" by simp
  have p500: "take (length ?p) ''ffffffff-ffff-ffff-ffff-000000000500'' = ?p" by simp
  have p404: "take (length ?p) ''ffffffff-ffff-ffff-ffff-000000000404'' = ?p" by simp
  have t200: "trailing3 ''ffffffff-ffff-ffff-ffff-000000000200'' = ''200''"
    by (simp add: trailing3_def)
  have t400: "trailing3 ''ffffffff-ffff-ffff-ffff-000000000400'' = ''400''"
    by (simp add: trailing3_def)
  have t500: "trailing3 ''ffffffff-ffff-ffff-ffff-000000000500'' = ''500''"
    by (simp add: trailing3_def)
  have t404: "trailing3 ''ffffffff-ffff-ffff-ffff-000000000404'' = [CHR ''4'', CHR ''0'', CHR ''4'']"
    by (simp add: trailing3_def)
  have d4: "digit CHR ''4'' = Some 4" and d0: "digit CHR ''0'' = Some 0"
    by (simp_all add: digit_def)
  have a: "resolveCluster ?p (Time 0) ?S ''ffffffff-ffff-ffff-ffff-000000000200'' =
      SyntheticFailure 200"
    using synthetic_failure_short_circuits [OF p200, where now = "Time 0" and reports = ?S] t200
    by blast
  have b: "resolveCluster ?p (Time 900) Map.empty ''ffffffff-ffff-ffff-ffff-000000000400'' =
      SyntheticFailure 400"
    using synthetic_failure_short_circuits
      [OF p400, where now = "Time 900" and reports = Map.empty] t400
    by blast
  have c: "resolveCluster ?p (Time 0) Map.empty ''ffffffff-ffff-ffff-ffff-000000000500'' =
      SyntheticFailure 500"
    using synthetic_failure_short_circuits
      [OF p500, where now = "Time 0" and reports = Map.empty] t500
    by blast
  have d: "classify ?p ''ffffffff-ffff-ffff-ffff-000000000404'' = Failing (100 * 4 + 10 * 0 + 4)
      \<and> statusCode (resolveCluster ?p (Time 0) Map.empty
            ''ffffffff-ffff-ffff-ffff-000000000404'') = 100 * 4 + 10 * 0 + 4"
    using synthetic_failure_short_circuits
      [OF p404, where now = "Time 0" and reports = Map.empty and ?d1.0 = "CHR ''4''"
         and ?d2.0 = "CHR ''0''" and ?d3.0 = "CHR ''4''" and ?n1.0 = 4 and ?n2.0 = 0
         and ?n3.0 = 4] t404 d4 d0
    by blast
  show ?thesis
    using a b c d by simp
qed

subsection \<open>Batches\<close>








end
